theory Spec2Isabelle
  imports Complex_Main "HOL-Library.Word"
begin

section \<open>JavaScript values\<close>

text \<open>
  The worker (\<^verbatim>\<open>src/index.ts\<close>) handles values decoded from JSON. A JavaScript string is
  a sequence of UTF-16 code units, so \<open>length\<close> and \<open>trim\<close> are modelled on 16-bit words.
  String literals of the source are ASCII and are written \<open>js ''...''\<close>.
\<close>

type_synonym jsstring = "16 word list"

definition js :: "string \<Rightarrow> jsstring" where
  "js s = map of_char s"

text \<open>
  A JavaScript number is an IEEE double. The program never computes with the numbers of
  a payload; it only tests them for truthiness and passes them on. The finite non-zero
  doubles are rationals; the two zeros, the infinities and NaN are kept apart.
\<close>

datatype jsnum = Num rat | NegZero | PosInfinity | NegInfinity | NaN

datatype jsval =
    JUndefined
  | JNull
  | JBool bool
  | JNumber jsnum
  | JString jsstring
  | JArray "jsval list"
  | JObject "(jsstring \<times> jsval) list"

text \<open>
  An object is the list of its own properties, one entry per key, as \<open>JSON.parse\<close> leaves
  it; \<open>JUndefined\<close> is the value of a missing property and never occurs in decoded JSON.

  A thrown value: an instance of \<open>Error\<close> with its name and message, or anything else.
\<close>

datatype thrown = JsError jsstring jsstring | NonError jsval

text \<open>\<^verbatim>\<open>type Result<T, E> = { success: true; value: T } | { success: false; error: E }\<close>\<close>

datatype ('a, 'e) Result = Ok 'a | Err 'e

datatype jstype = TUndefined | TObject | TBoolean | TNumber | TString

fun typeof :: "jsval \<Rightarrow> jstype" where
  "typeof JUndefined = TUndefined"
| "typeof JNull = TObject"
| "typeof (JBool b) = TBoolean"
| "typeof (JNumber n) = TNumber"
| "typeof (JString s) = TString"
| "typeof (JArray xs) = TObject"
| "typeof (JObject kvs) = TObject"

text \<open>ToBoolean: the falsy values are undefined, null, false, +0, -0, NaN and "".\<close>

fun num_truthy :: "jsnum \<Rightarrow> bool" where
  "num_truthy (Num r) = (r \<noteq> 0)"
| "num_truthy NegZero = False"
| "num_truthy NaN = False"
| "num_truthy PosInfinity = True"
| "num_truthy NegInfinity = True"

fun truthy :: "jsval \<Rightarrow> bool" where
  "truthy JUndefined = False"
| "truthy JNull = False"
| "truthy (JBool b) = b"
| "truthy (JNumber n) = num_truthy n"
| "truthy (JString s) = (s \<noteq> [])"
| "truthy (JArray xs) = True"
| "truthy (JObject kvs) = True"

text \<open>\<^verbatim>\<open>a || b\<close>\<close>

definition js_or :: "jsval \<Rightarrow> jsval \<Rightarrow> jsval" where
  "js_or a b = (if truthy a then a else b)"

fun nullish :: "jsval \<Rightarrow> bool" where
  "nullish JUndefined = True"
| "nullish JNull = True"
| "nullish v = False"

text \<open>
  Reading a named property \<open>v.k\<close> of a value that is neither null nor undefined, for a
  name \<open>k\<close> that the built-in prototypes do not define. Every name the program reads with
  the dot (query, schema, apiKeys, openai, anthropic, gemini, grok, choices, message,
  content, candidates, parts, text, type, input) is such a name, so only the own
  properties of an object decoded from JSON can answer; everything else gives undefined.
\<close>

fun own_property :: "jsval \<Rightarrow> jsstring \<Rightarrow> jsval" where
  "own_property (JObject kvs) k = (case map_of kvs k of None \<Rightarrow> JUndefined | Some v \<Rightarrow> v)"
| "own_property v k = JUndefined"

section \<open>The host\<close>

text \<open>
  What the program takes from its runtime: the JSON codec, the conversion of a non-string
  value to a string (template literals), the text of an engine TypeError, and the network.
  A call that may raise returns \<open>Inl\<close> of the thrown value. \<open>fetch\<close> is always called with
  method POST; its arguments here are the URL, the headers and the body text. A response
  carries \<open>ok\<close>, \<open>status\<close>, \<open>statusText\<close> and the result of reading its body with \<open>text()\<close>.
\<close>

record http_response =
  resp_ok :: bool
  resp_status :: nat
  resp_statusText :: jsstring
  resp_text :: "thrown + jsstring"

record host =
  type_error_message :: "jsval \<Rightarrow> jsstring \<Rightarrow> jsstring"
  JSON_parse :: "jsstring \<Rightarrow> thrown + jsval"
  JSON_stringify :: "jsval \<Rightarrow> thrown + jsstring"
  ToString :: "jsval \<Rightarrow> jsstring"
  fetch :: "jsstring \<Rightarrow> (jsstring \<times> jsstring) list \<Rightarrow> jsstring \<Rightarrow> thrown + http_response"

definition type_error :: "host \<Rightarrow> jsval \<Rightarrow> jsstring \<Rightarrow> thrown" where
  "type_error h v k = JsError (js ''TypeError'') (type_error_message h v k)"

text \<open>\<open>v.k\<close> raises a TypeError on null and undefined.\<close>

definition member :: "host \<Rightarrow> jsval \<Rightarrow> jsstring \<Rightarrow> thrown + jsval" where
  "member h v k = (if nullish v then Inl (type_error h v k) else Inr (own_property v k))"

text \<open>\<open>v?.k\<close>\<close>

definition opt_member :: "jsval \<Rightarrow> jsstring \<Rightarrow> jsval" where
  "opt_member v k = (if nullish v then JUndefined else own_property v k)"

text \<open>
  \<open>String.prototype.trim\<close> removes WhiteSpace and LineTerminator code units from both ends.
\<close>

definition is_ws :: "16 word \<Rightarrow> bool" where
  "is_ws c = (c \<in> {0x09, 0x0A, 0x0B, 0x0C, 0x0D, 0x20, 0xA0, 0x1680, 0x2028, 0x2029,
                    0x202F, 0x205F, 0x3000, 0xFEFF} \<or> (0x2000 \<le> c \<and> c \<le> 0x200A))"

definition trim :: "jsstring \<Rightarrow> jsstring" where
  "trim s = rev (dropWhile is_ws (rev (dropWhile is_ws s)))"

section \<open>Request validation\<close>

text \<open>
  \<^verbatim>\<open>validateRequest\<close>. The first test leaves only objects and arrays, so the property read
  cannot raise; the call of \<open>trim\<close> is reached only on a string.
\<close>

definition validateRequest :: "host \<Rightarrow> jsval \<Rightarrow> thrown + (jsval, jsstring) Result" where
  "validateRequest h requestData =
     (if \<not> truthy requestData \<or> typeof requestData \<noteq> TObject
      then Inr (Err (js ''Invalid request body''))
      else case member h requestData (js ''query'') of
             Inl e \<Rightarrow> Inl e
           | Inr q \<Rightarrow>
               if \<not> truthy q \<or> typeof q \<noteq> TString
               then Inr (Err (js ''Missing required field: query''))
               else (case q of
                       JString s \<Rightarrow>
                         if length (trim s) = 0
                         then Inr (Err (js ''Query cannot be empty''))
                         else Inr (Ok requestData)
                     | _ \<Rightarrow> Inl (type_error h q (js ''trim''))))"

section \<open>Exceptions, template literals\<close>

text \<open>\<^verbatim>\<open>try { body } catch (error) { handler }\<close> and sequencing of calls that may raise.\<close>

definition try_catch :: "thrown + 'a \<Rightarrow> (thrown \<Rightarrow> thrown + 'a) \<Rightarrow> thrown + 'a" where
  "try_catch body handler = (case body of Inl e \<Rightarrow> handler e | Inr v \<Rightarrow> Inr v)"

definition and_then :: "thrown + 'a \<Rightarrow> ('a \<Rightarrow> thrown + 'b) \<Rightarrow> thrown + 'b" where
  "and_then m f = (case m of Inl e \<Rightarrow> Inl e | Inr v \<Rightarrow> f v)"

text \<open>\<^verbatim>\<open>error instanceof Error ? error.message : 'Unknown error'\<close>\<close>

fun message_or_unknown :: "thrown \<Rightarrow> jsstring" where
  "message_or_unknown (JsError n m) = m"
| "message_or_unknown (NonError v) = js ''Unknown error''"

text \<open>\<open>${v}\<close> in a template literal: a string stands for itself.\<close>

definition to_string :: "host \<Rightarrow> jsval \<Rightarrow> jsstring" where
  "to_string h v = (case v of JString s \<Rightarrow> s | _ \<Rightarrow> ToString h v)"

text \<open>\<open>${error}\<close>: \<open>Error.prototype.toString\<close> joins name and message.\<close>

fun thrown_to_string :: "host \<Rightarrow> thrown \<Rightarrow> jsstring" where
  "thrown_to_string h (JsError n m) =
     (if n = [] then m else if m = [] then n else n @ js '': '' @ m)"
| "thrown_to_string h (NonError v) = to_string h v"

text \<open>\<open>${response.status}\<close>: a non-negative integer in decimal.\<close>

definition digit :: "nat \<Rightarrow> 16 word" where
  "digit d = of_nat (48 + d)"

function decimal :: "nat \<Rightarrow> jsstring" where
  "decimal n = (if n < 10 then [digit n] else decimal (n div 10) @ [digit (n mod 10)])"
  by pat_completeness auto
termination
  by (relation "measure id") auto

declare decimal.simps [simp del]

section \<open>Generic safe-parse\<close>

text \<open>\<^verbatim>\<open>safeJsonParse\<close>, lines 132-141.\<close>

definition safeJsonParse :: "host \<Rightarrow> jsstring \<Rightarrow> thrown + (jsval, jsstring) Result" where
  "safeJsonParse h text' =
     try_catch
       (and_then (JSON_parse h text') (\<lambda>v. Inr (Ok v)))
       (\<lambda>err. Inr (Err (js ''JSON parse error: '' @ message_or_unknown err)))"

section \<open>Provider configuration and adapters\<close>

record config =
  name :: jsstring
  url :: jsstring
  model :: jsstring

definition LLM_CONFIGS_openai :: config where
  "LLM_CONFIGS_openai =
     \<lparr>name = js ''OpenAI GPT-4'',
      url = js ''https://api.openai.com/v1/chat/completions'',
      model = js ''gpt-4o-2024-08-06''\<rparr>"

definition LLM_CONFIGS_anthropic :: config where
  "LLM_CONFIGS_anthropic =
     \<lparr>name = js ''Anthropic Claude'',
      url = js ''https://api.anthropic.com/v1/messages'',
      model = js ''claude-sonnet-4-20250514''\<rparr>"

definition LLM_CONFIGS_gemini :: config where
  "LLM_CONFIGS_gemini =
     \<lparr>name = js ''Google Gemini'',
      url = js ''https://generativelanguage.googleapis.com/v1beta/models/gemini-1.5-pro:generateContent'',
      model = js ''gemini-1.5-pro''\<rparr>"

definition LLM_CONFIGS_grok :: config where
  "LLM_CONFIGS_grok =
     \<lparr>name = js ''xAI Grok'',
      url = js ''https://api.x.ai/v1/chat/completions'',
      model = js ''grok-2-1212''\<rparr>"

definition DEFAULT_SCHEMA :: jsval where
  "DEFAULT_SCHEMA =
     JObject
       [(js ''type'', JString (js ''object'')),
        (js ''properties'',
           JObject
             [(js ''answer'',
                 JObject [(js ''type'', JString (js ''string'')),
                          (js ''description'', JString (js ''The answer to the query''))]),
              (js ''confidence'',
                 JObject [(js ''type'', JString (js ''number'')),
                          (js ''description'', JString (js ''Confidence level from 0 to 1''))])]),
        (js ''required'', JArray [JString (js ''answer''), JString (js ''confidence'')]),
        (js ''additionalProperties'', JBool False)]"

subsection \<open>Request body builders\<close>

definition user_messages :: "jsstring \<Rightarrow> jsval" where
  "user_messages qry =
     JArray [JObject [(js ''role'', JString (js ''user'')), (js ''content'', JString qry)]]"

definition json_schema_format :: "jsval \<Rightarrow> jsval" where
  "json_schema_format schema =
     JObject
       [(js ''type'', JString (js ''json_schema'')),
        (js ''json_schema'',
           JObject [(js ''name'', JString (js ''response'')),
                    (js ''strict'', JBool True),
                    (js ''schema'', schema)])]"

definition buildOpenAIRequestBody :: "jsstring \<Rightarrow> jsval \<Rightarrow> thrown + jsval" where
  "buildOpenAIRequestBody qry schema =
     Inr (JObject
       [(js ''model'', JString (model LLM_CONFIGS_openai)),
        (js ''messages'', user_messages qry),
        (js ''response_format'', json_schema_format schema)])"

definition buildClaudeRequestBody :: "jsstring \<Rightarrow> jsval \<Rightarrow> thrown + jsval" where
  "buildClaudeRequestBody qry schema =
     Inr (JObject
       [(js ''model'', JString (model LLM_CONFIGS_anthropic)),
        (js ''max_tokens'', JNumber (Num 4096)),
        (js ''tools'',
           JArray [JObject
             [(js ''name'', JString (js ''respond'')),
              (js ''description'', JString (js ''Respond to the query with structured data'')),
              (js ''input_schema'', schema)]]),
        (js ''tool_choice'',
           JObject [(js ''type'', JString (js ''tool'')), (js ''name'', JString (js ''respond''))]),
        (js ''messages'', user_messages qry)])"

definition buildGeminiRequestBody :: "jsstring \<Rightarrow> jsval \<Rightarrow> thrown + jsval" where
  "buildGeminiRequestBody qry schema =
     Inr (JObject
       [(js ''contents'',
           JArray [JObject [(js ''parts'', JArray [JObject [(js ''text'', JString qry)]])]]),
        (js ''generationConfig'',
           JObject [(js ''responseMimeType'', JString (js ''application/json'')),
                    (js ''responseSchema'', schema)])])"

definition buildGrokRequestBody :: "jsstring \<Rightarrow> jsval \<Rightarrow> thrown + jsval" where
  "buildGrokRequestBody qry schema =
     Inr (JObject
       [(js ''model'', JString (model LLM_CONFIGS_grok)),
        (js ''messages'', user_messages qry),
        (js ''response_format'', json_schema_format schema)])"

subsection \<open>Response parsers\<close>

text \<open>
  \<open>v?.[0]\<close>: the first element of an array, the first code unit of a string, the property
  "0" of an object; undefined otherwise.
\<close>

fun opt_index0 :: "jsval \<Rightarrow> jsval" where
  "opt_index0 (JArray xs) = (case xs of [] \<Rightarrow> JUndefined | x # _ \<Rightarrow> x)"
| "opt_index0 (JString s) = (case s of [] \<Rightarrow> JUndefined | c # _ \<Rightarrow> JString [c])"
| "opt_index0 (JObject kvs) = own_property (JObject kvs) (js ''0'')"
| "opt_index0 v = JUndefined"

text \<open>
  The parsers hand \<open>content\<close> to \<^verbatim>\<open>safeJsonParse\<close> whatever its type; \<open>JSON.parse\<close> converts
  its argument to a string first.
\<close>

definition parseOpenAIResponse :: "host \<Rightarrow> jsval \<Rightarrow> thrown + (jsval, jsstring) Result" where
  "parseOpenAIResponse h data' =
     try_catch
       (let content =
              opt_member (opt_member (opt_index0 (opt_member data' (js ''choices''))) (js ''message''))
                (js ''content'')
        in if \<not> truthy content then Inr (Err (js ''No content in OpenAI response''))
           else safeJsonParse h (to_string h content))
       (\<lambda>err. Inr (Err (js ''OpenAI parse error: '' @ thrown_to_string h err)))"

text \<open>
  \<open>content.find(block => block.type === 'tool_use')\<close>: on an array the callback reads
  \<open>block.type\<close>, which raises on a null element; on anything else \<open>find\<close> is not a function.
\<close>

fun find_tool_use :: "host \<Rightarrow> jsval list \<Rightarrow> thrown + jsval" where
  "find_tool_use h [] = Inr JUndefined"
| "find_tool_use h (block # rest) =
     (case member h block (js ''type'') of
        Inl e \<Rightarrow> Inl e
      | Inr t \<Rightarrow> if t = JString (js ''tool_use'') then Inr block else find_tool_use h rest)"

definition call_find :: "host \<Rightarrow> jsval \<Rightarrow> thrown + jsval" where
  "call_find h content =
     (case content of
        JArray blocks \<Rightarrow> find_tool_use h blocks
      | _ \<Rightarrow> Inl (type_error h content (js ''find'')))"

definition parseClaudeResponse :: "host \<Rightarrow> jsval \<Rightarrow> thrown + (jsval, jsstring) Result" where
  "parseClaudeResponse h data' =
     try_catch
       (let content = opt_member data' (js ''content'')
        in and_then (if nullish content then Inr JUndefined else call_find h content)
             (\<lambda>toolUse.
                if \<not> truthy (opt_member toolUse (js ''input''))
                then Inr (Err (js ''No tool_use in Claude response''))
                else and_then (member h toolUse (js ''input'')) (\<lambda>input. Inr (Ok input))))
       (\<lambda>err. Inr (Err (js ''Claude parse error: '' @ thrown_to_string h err)))"

definition parseGeminiResponse :: "host \<Rightarrow> jsval \<Rightarrow> thrown + (jsval, jsstring) Result" where
  "parseGeminiResponse h data' =
     try_catch
       (let content =
              opt_member
                (opt_index0
                   (opt_member
                      (opt_member (opt_index0 (opt_member data' (js ''candidates''))) (js ''content''))
                      (js ''parts'')))
                (js ''text'')
        in if \<not> truthy content then Inr (Err (js ''No content in Gemini response''))
           else safeJsonParse h (to_string h content))
       (\<lambda>err. Inr (Err (js ''Gemini parse error: '' @ thrown_to_string h err)))"

definition parseGrokResponse :: "host \<Rightarrow> jsval \<Rightarrow> thrown + (jsval, jsstring) Result" where
  "parseGrokResponse h data' =
     try_catch
       (let content =
              opt_member (opt_member (opt_index0 (opt_member data' (js ''choices''))) (js ''message''))
                (js ''content'')
        in if \<not> truthy content then Inr (Err (js ''No content in Grok response''))
           else safeJsonParse h (to_string h content))
       (\<lambda>err. Inr (Err (js ''Grok parse error: '' @ thrown_to_string h err)))"

section \<open>The provider invoker\<close>

text \<open>
  \<^verbatim>\<open>interface LLMResponse\<close>: \<open>data\<close> and \<open>error\<close> are optional keys; \<open>None\<close> is an absent key.
\<close>

record LLMResponse =
  provider :: jsstring
  success :: bool
  data :: "jsval option"
  error :: "jsstring option"
  latency :: int

text \<open>
  \<^verbatim>\<open>createLLMQueryFunction\<close>, lines 285-362. The function is \<open>async\<close>: \<open>Inl\<close> is a rejected
  promise, \<open>Inr\<close> a fulfilled one. \<open>clk i\<close> is the value of the \<open>i\<close>-th call of \<open>Date.now()\<close>
  made by this invocation, in milliseconds: \<open>clk 0\<close> is \<open>startTime\<close>, \<open>clk 1\<close> the next
  reading (line 306, or line 352 when the call or the reading of the body raised), and
  \<open>clk 2\<close> the reading of line 352 when something raised after line 306. The logging calls
  write to the console and are left out, except that line 295 calls \<open>query.substring\<close> before
  the \<open>try\<close>: types are erased at run time, and on anything but a string that call raises.
  The adapter's functions may raise.
\<close>

definition createLLMQueryFunction ::
  "host \<Rightarrow> (nat \<Rightarrow> int) \<Rightarrow> jsstring \<Rightarrow> jsstring \<Rightarrow>
   (jsval \<Rightarrow> thrown + (jsstring \<times> jsstring) list) \<Rightarrow>
   (jsstring \<Rightarrow> jsval \<Rightarrow> thrown + jsval) \<Rightarrow>
   (jsval \<Rightarrow> thrown + (jsval, jsstring) Result) \<Rightarrow>
   (jsstring \<Rightarrow> jsval \<Rightarrow> thrown + jsstring) option \<Rightarrow>
   jsval \<Rightarrow> jsval \<Rightarrow> jsval \<Rightarrow> thrown + LLMResponse" where
  "createLLMQueryFunction h clk prov url' buildHeaders buildBody parseResponse urlModifier
       query' schema apiKey =
     (case query' of
        JString qry \<Rightarrow>
     (let startTime = clk 0;
          caught = (\<lambda>now err.
             Inr \<lparr>provider = prov, success = False, data = None,
                  error = Some (message_or_unknown err), latency = now - startTime\<rparr>)
      in case
           and_then (case urlModifier of Some f \<Rightarrow> f url' apiKey | None \<Rightarrow> Inr url') (\<lambda>finalUrl.
           and_then (buildHeaders apiKey) (\<lambda>headers.
           and_then (buildBody qry schema) (\<lambda>body.
           and_then (JSON_stringify h body) (\<lambda>bodyText.
           and_then (fetch h finalUrl headers bodyText) (\<lambda>response.
           and_then (resp_text response) (\<lambda>responseText.
             Inr (response, responseText)))))))
         of
           Inl err \<Rightarrow> caught (clk 1) err
         | Inr (response, responseText) \<Rightarrow>
             let latency' = clk 1 - startTime
             in try_catch
                  (if \<not> resp_ok response
                   then Inr \<lparr>provider = prov, success = False, data = None,
                             error = Some (prov @ js '' API error: '' @ decimal (resp_status response)
                                           @ js '' '' @ resp_statusText response),
                             latency = latency'\<rparr>
                   else and_then (safeJsonParse h responseText) (\<lambda>jsonParseResult.
                     case jsonParseResult of
                       Err e \<Rightarrow>
                         Inr \<lparr>provider = prov, success = False, data = None, error = Some e,
                              latency = latency'\<rparr>
                     | Ok value \<Rightarrow>
                         and_then (parseResponse value) (\<lambda>dataParseResult.
                           case dataParseResult of
                             Err e \<Rightarrow>
                               Inr \<lparr>provider = prov, success = False, data = None, error = Some e,
                                    latency = latency'\<rparr>
                           | Ok v \<Rightarrow>
                               Inr \<lparr>provider = prov, success = True, data = Some v, error = None,
                                    latency = latency'\<rparr>)))
                  (caught (clk 2)))
      | _ \<Rightarrow> Inl (type_error h query' (js ''substring'')))"

definition queryOpenAI :: "host \<Rightarrow> (nat \<Rightarrow> int) \<Rightarrow> jsval \<Rightarrow> jsval \<Rightarrow> jsval \<Rightarrow> thrown + LLMResponse" where
  "queryOpenAI h clk =
     createLLMQueryFunction h clk (name LLM_CONFIGS_openai) (url LLM_CONFIGS_openai)
       (\<lambda>apiKey. Inr [(js ''Content-Type'', js ''application/json''),
                      (js ''Authorization'', js ''Bearer '' @ to_string h apiKey)])
       buildOpenAIRequestBody
       (parseOpenAIResponse h)
       None"

definition queryClaude :: "host \<Rightarrow> (nat \<Rightarrow> int) \<Rightarrow> jsval \<Rightarrow> jsval \<Rightarrow> jsval \<Rightarrow> thrown + LLMResponse" where
  "queryClaude h clk =
     createLLMQueryFunction h clk (name LLM_CONFIGS_anthropic) (url LLM_CONFIGS_anthropic)
       (\<lambda>apiKey. Inr [(js ''Content-Type'', js ''application/json''),
                      (js ''x-api-key'', to_string h apiKey),
                      (js ''anthropic-version'', js ''2023-06-01'')])
       buildClaudeRequestBody
       (parseClaudeResponse h)
       None"

definition queryGemini :: "host \<Rightarrow> (nat \<Rightarrow> int) \<Rightarrow> jsval \<Rightarrow> jsval \<Rightarrow> jsval \<Rightarrow> thrown + LLMResponse" where
  "queryGemini h clk =
     createLLMQueryFunction h clk (name LLM_CONFIGS_gemini) (url LLM_CONFIGS_gemini)
       (\<lambda>apiKey. Inr [(js ''Content-Type'', js ''application/json'')])
       buildGeminiRequestBody
       (parseGeminiResponse h)
       (Some (\<lambda>u apiKey. Inr (u @ js ''?key='' @ to_string h apiKey)))"

definition queryGrok :: "host \<Rightarrow> (nat \<Rightarrow> int) \<Rightarrow> jsval \<Rightarrow> jsval \<Rightarrow> jsval \<Rightarrow> thrown + LLMResponse" where
  "queryGrok h clk =
     createLLMQueryFunction h clk (name LLM_CONFIGS_grok) (url LLM_CONFIGS_grok)
       (\<lambda>apiKey. Inr [(js ''Content-Type'', js ''application/json''),
                      (js ''Authorization'', js ''Bearer '' @ to_string h apiKey)])
       buildGrokRequestBody
       (parseGrokResponse h)
       None"

section \<open>Key resolution\<close>

text \<open>\<^verbatim>\<open>interface Env\<close>: the process-level defaults, each an optional string.\<close>

record Env =
  OPENAI_API_KEY :: "jsstring option"
  ANTHROPIC_API_KEY :: "jsstring option"
  GEMINI_API_KEY :: "jsstring option"
  GROK_API_KEY :: "jsstring option"

definition env_value :: "jsstring option \<Rightarrow> jsval" where
  "env_value x = (case x of None \<Rightarrow> JUndefined | Some s \<Rightarrow> JString s)"

record ApiKeys =
  openai :: jsval
  anthropic :: jsval
  gemini :: jsval
  grok :: jsval

text \<open>\<^verbatim>\<open>resolveApiKeys\<close>, lines 429-434.\<close>

definition resolveApiKeys :: "host \<Rightarrow> jsval \<Rightarrow> Env \<Rightarrow> thrown + ApiKeys" where
  "resolveApiKeys h requestData env =
     and_then (member h requestData (js ''apiKeys'')) (\<lambda>apiKeys.
       Inr \<lparr>openai = js_or (opt_member apiKeys (js ''openai'')) (env_value (OPENAI_API_KEY env)),
            anthropic = js_or (opt_member apiKeys (js ''anthropic'')) (env_value (ANTHROPIC_API_KEY env)),
            gemini = js_or (opt_member apiKeys (js ''gemini'')) (env_value (GEMINI_API_KEY env)),
            grok = js_or (opt_member apiKeys (js ''grok'')) (env_value (GROK_API_KEY env))\<rparr>)"

section \<open>Dispatch\<close>

text \<open>
  A promise made by \<^verbatim>\<open>buildLLMPromises\<close> is represented by the call that made it: which of
  the four query functions, and its arguments.
\<close>

datatype query_function = QueryOpenAI | QueryClaude | QueryGemini | QueryGrok

record invocation =
  callee :: query_function
  arg_query :: jsval
  arg_schema :: jsval
  arg_apiKey :: jsval

text \<open>\<^verbatim>\<open>buildLLMPromises\<close>, lines 436-449.\<close>

definition buildLLMPromises :: "jsval \<Rightarrow> jsval \<Rightarrow> ApiKeys \<Rightarrow> invocation list" where
  "buildLLMPromises query' schema apiKeys =
     (if truthy (openai apiKeys)
      then [\<lparr>callee = QueryOpenAI, arg_query = query', arg_schema = schema, arg_apiKey = openai apiKeys\<rparr>]
      else [])
     @ (if truthy (anthropic apiKeys)
        then [\<lparr>callee = QueryClaude, arg_query = query', arg_schema = schema, arg_apiKey = anthropic apiKeys\<rparr>]
        else [])
     @ (if truthy (gemini apiKeys)
        then [\<lparr>callee = QueryGemini, arg_query = query', arg_schema = schema, arg_apiKey = gemini apiKeys\<rparr>]
        else [])
     @ (if truthy (grok apiKeys)
        then [\<lparr>callee = QueryGrok, arg_query = query', arg_schema = schema, arg_apiKey = grok apiKeys\<rparr>]
        else [])"

text \<open>
  The clock readings of one request: \<open>overallStartTime\<close>, the readings of each query
  function, the reading when all promises have settled, and the ISO text of
  \<^verbatim>\<open>getCurrentTimestamp()\<close> when the response is built.
\<close>

record clock =
  request_start :: int
  query_clock :: "query_function \<Rightarrow> nat \<Rightarrow> int"
  request_end :: int
  iso_now :: jsstring

text \<open>The outcome of a promise: the query function run on its arguments.\<close>

definition settle :: "host \<Rightarrow> clock \<Rightarrow> invocation \<Rightarrow> thrown + LLMResponse" where
  "settle h clk p =
     (case callee p of
        QueryOpenAI \<Rightarrow> queryOpenAI h (query_clock clk QueryOpenAI) (arg_query p) (arg_schema p) (arg_apiKey p)
      | QueryClaude \<Rightarrow> queryClaude h (query_clock clk QueryClaude) (arg_query p) (arg_schema p) (arg_apiKey p)
      | QueryGemini \<Rightarrow> queryGemini h (query_clock clk QueryGemini) (arg_query p) (arg_schema p) (arg_apiKey p)
      | QueryGrok \<Rightarrow> queryGrok h (query_clock clk QueryGrok) (arg_query p) (arg_schema p) (arg_apiKey p))"

text \<open>
  \<open>Promise.all\<close>: the values in the order of the promises when all are fulfilled,
  whatever the order of completion; a rejection otherwise (here the first in the list).
\<close>

fun Promise_all :: "(thrown + 'a) list \<Rightarrow> thrown + 'a list" where
  "Promise_all [] = Inr []"
| "Promise_all (Inl e # ps) = Inl e"
| "Promise_all (Inr v # ps) = (case Promise_all ps of Inl e \<Rightarrow> Inl e | Inr vs \<Rightarrow> Inr (v # vs))"

section \<open>Aggregation and responses\<close>

record CombinedResponse =
  query :: jsval
  responses :: "LLMResponse list"
  totalLatency :: int
  timestamp :: jsstring
  providersQueried :: nat

text \<open>\<^verbatim>\<open>createCombinedResponse\<close>, lines 451-461; \<open>now\<close> is \<^verbatim>\<open>getCurrentTimestamp()\<close>.\<close>

definition createCombinedResponse :: "jsstring \<Rightarrow> jsval \<Rightarrow> LLMResponse list \<Rightarrow> int \<Rightarrow> CombinedResponse" where
  "createCombinedResponse now query' rs elapsed =
     \<lparr>query = query', responses = rs, totalLatency = elapsed, timestamp = now,
      providersQueried = length rs\<rparr>"

text \<open>
  A \<open>Response\<close>: its body is kept as the value that the source hands to \<open>JSON.stringify\<close>.
\<close>

datatype response_body =
    ErrorBody jsstring "jsval option" jsstring
  | CombinedBody CombinedResponse

record Response =
  status :: nat
  headers :: "(jsstring \<times> jsstring) list"
  body :: response_body

text \<open>\<^verbatim>\<open>createErrorResponse\<close>: \<open>details\<close> is included when truthy.\<close>

definition createErrorResponse :: "jsstring \<Rightarrow> nat \<Rightarrow> jsstring \<Rightarrow> jsval \<Rightarrow> Response" where
  "createErrorResponse now st msg details =
     \<lparr>status = st,
      headers = [(js ''Content-Type'', js ''application/json'')],
      body = ErrorBody msg (if truthy details then Some details else None) now\<rparr>"

text \<open>
  \<^verbatim>\<open>createSuccessResponse\<close>: the log line calls \<open>data.query.substring\<close>, which raises unless
  the query is a string.
\<close>

definition createSuccessResponse :: "host \<Rightarrow> CombinedResponse \<Rightarrow> thrown + Response" where
  "createSuccessResponse h d =
     (case query d of
        JString s \<Rightarrow>
          Inr \<lparr>status = 200,
               headers = [(js ''Content-Type'', js ''application/json''),
                          (js ''Access-Control-Allow-Origin'', js ''*'')],
               body = CombinedBody d\<rparr>
      | _ \<Rightarrow> Inl (type_error h (query d) (js ''substring'')))"

section \<open>The request handler\<close>

text \<open>A request: \<open>request.method\<close> and the result of \<open>request.json()\<close>.\<close>

record request =
  req_method :: jsstring
  req_json :: "thrown + jsval"

text \<open>
  \<^verbatim>\<open>handleRequest\<close>, lines 467-525. Calling a query function is the handler's effect on the
  providers, so the result is the list of the calls made, in the order made, and the
  response (or the value thrown).
\<close>

definition handleRequest ::
  "host \<Rightarrow> clock \<Rightarrow> request \<Rightarrow> Env \<Rightarrow> invocation list \<times> (thrown + Response)" where
  "handleRequest h clk req env =
     (if req_method req \<noteq> js ''POST''
      then ([], Inr (createErrorResponse (iso_now clk) 405 (js ''Method not allowed. Use POST.'') JUndefined))
      else case req_json req of
        Inl err \<Rightarrow>
          ([], Inr (createErrorResponse (iso_now clk) 400 (js ''Invalid JSON in request body'')
                     (JObject [(js ''parseError'', JString (message_or_unknown err))])))
      | Inr requestData \<Rightarrow>
          (case validateRequest h requestData of
             Inl e \<Rightarrow> ([], Inl e)
           | Inr (Err e) \<Rightarrow> ([], Inr (createErrorResponse (iso_now clk) 400 e JUndefined))
           | Inr (Ok queryRequest) \<Rightarrow>
               (case member h queryRequest (js ''schema'') of
                  Inl e \<Rightarrow> ([], Inl e)
                | Inr s \<Rightarrow>
                    let schema = js_or s DEFAULT_SCHEMA in
                    (case resolveApiKeys h queryRequest env of
                       Inl e \<Rightarrow> ([], Inl e)
                     | Inr apiKeys \<Rightarrow>
                         (case member h queryRequest (js ''query'') of
                            Inl e \<Rightarrow> ([], Inl e)
                          | Inr q \<Rightarrow>
                              let promises = buildLLMPromises q schema apiKeys in
                              (promises,
                               if length promises = 0
                               then Inr (createErrorResponse (iso_now clk) 400
                                      (js ''No API keys provided. Include apiKeys in request body or configure environment variables.'')
                                      JUndefined)
                               else case Promise_all (map (settle h clk) promises) of
                                 Inl err \<Rightarrow>
                                   Inr (createErrorResponse (iso_now clk) 500 (js ''Failed to query LLMs'')
                                          (JObject [(js ''error'', JString (message_or_unknown err))]))
                               | Inr rs \<Rightarrow>
                                   let elapsed = request_end clk - request_start clk;
                                       result = createCombinedResponse (iso_now clk) q rs elapsed
                                   in createSuccessResponse h result))))))"

section \<open>Vocabulary of the specification\<close>

text \<open>
  The providers in registration order, each with the display identity of its outcomes and
  its entry in a resolved credential set.
\<close>

definition registration_order :: "query_function list" where
  "registration_order = [QueryOpenAI, QueryClaude, QueryGemini, QueryGrok]"

fun provider_name :: "query_function \<Rightarrow> jsstring" where
  "provider_name QueryOpenAI = name LLM_CONFIGS_openai"
| "provider_name QueryClaude = name LLM_CONFIGS_anthropic"
| "provider_name QueryGemini = name LLM_CONFIGS_gemini"
| "provider_name QueryGrok = name LLM_CONFIGS_grok"

fun credential_of :: "ApiKeys \<Rightarrow> query_function \<Rightarrow> jsval" where
  "credential_of k QueryOpenAI = openai k"
| "credential_of k QueryClaude = anthropic k"
| "credential_of k QueryGemini = gemini k"
| "credential_of k QueryGrok = grok k"

text \<open>The providers whose resolved credential is present, in registration order.\<close>

definition available :: "ApiKeys \<Rightarrow> query_function list" where
  "available k = filter (\<lambda>f. truthy (credential_of k f)) registration_order"

text \<open>
  The rule of the key resolver in the words of the specification: the caller's value if
  present and truthy, else the default. \<open>caller_credential\<close> is the caller's entry for one
  provider.
\<close>

definition caller_credential :: "jsval \<Rightarrow> jsstring \<Rightarrow> jsval" where
  "caller_credential requestData p = opt_member (own_property requestData (js ''apiKeys'')) p"

definition resolved :: "jsval \<Rightarrow> jsstring option \<Rightarrow> jsval" where
  "resolved caller dflt = (if truthy caller then caller else env_value dflt)"

section \<open>A sample host and sample requests\<close>

text \<open>
  A host in which the first provider answers with a well-formed envelope, the second with
  HTTP 429, and the connection to the others fails. Its JSON parser knows the two texts
  that occur and rejects everything else.
\<close>

definition answer_text :: jsstring where
  \<open>answer_text = js ''[4]''\<close>

definition envelope_text :: jsstring where
  \<open>envelope_text = js ''{"choices":[{"message":{"content":"[4]"}}]}''\<close>

definition sample_host :: host where
  "sample_host =
     \<lparr>type_error_message = (\<lambda>v k. js ''Cannot read properties''),
      JSON_parse = (\<lambda>t.
         if t = answer_text then Inr (JArray [JNumber (Num 4)])
         else if t = envelope_text
         then Inr (JObject [(js ''choices'',
                 JArray [JObject [(js ''message'',
                   JObject [(js ''content'', JString answer_text)])]])])
         else Inl (JsError (js ''SyntaxError'') (js ''Unexpected end of JSON input''))),
      JSON_stringify = (\<lambda>v. Inr (js ''{}'')),
      ToString = (\<lambda>v. js ''[object Object]''),
      fetch = (\<lambda>u hs b.
         if u = url LLM_CONFIGS_openai
         then Inr \<lparr>resp_ok = True, resp_status = 200, resp_statusText = js ''OK'',
                   resp_text = Inr envelope_text\<rparr>
         else if u = url LLM_CONFIGS_anthropic
         then Inr \<lparr>resp_ok = False, resp_status = 429, resp_statusText = js ''Too Many Requests'',
                   resp_text = Inr (js ''rate limited'')\<rparr>
         else Inl (JsError (js ''TypeError'') (js ''fetch failed'')))\<rparr>"

text \<open>A clock that advances, and one that is set back by a millisecond during the call.\<close>

definition steady_clock :: "nat \<Rightarrow> int" where
  "steady_clock i = 1000 + 250 * int i"

definition skewed_clock :: "nat \<Rightarrow> int" where
  "skewed_clock i = (if i = 0 then 1000 else 999)"

definition sample_clock :: clock where
  "sample_clock =
     \<lparr>request_start = 990, query_clock = (\<lambda>f. steady_clock), request_end = 1600,
      iso_now = js ''2025-10-20T00:00:01.600Z''\<rparr>"

definition no_env :: Env where
  "no_env = \<lparr>OPENAI_API_KEY = None, ANTHROPIC_API_KEY = None, GEMINI_API_KEY = None,
             GROK_API_KEY = None\<rparr>"

definition two_keys_payload :: jsval where
  "two_keys_payload =
     JObject [(js ''query'', JString (js ''What is 2+2?'')),
              (js ''schema'', JNull),
              (js ''apiKeys'', JObject [(js ''openai'', JString (js ''k1'')),
                                        (js ''anthropic'', JString (js ''k2'')),
                                        (js ''gemini'', JString [])])]"

definition no_keys_payload :: jsval where
  "no_keys_payload = JObject [(js ''query'', JString (js ''What is 2+2?''))]"

definition post :: "jsval \<Rightarrow> request" where
  "post payload = \<lparr>req_method = js ''POST'', req_json = Inr payload\<rparr>"

definition sample_env :: Env where
  "sample_env = \<lparr>OPENAI_API_KEY = Some (js ''env-openai''), ANTHROPIC_API_KEY = None,
                 GEMINI_API_KEY = Some (js ''env-gemini''), GROK_API_KEY = None\<rparr>"

definition two_keys :: ApiKeys where
  "two_keys = \<lparr>openai = JString (js ''k1''), anthropic = JString (js ''k2''),
               gemini = JUndefined, grok = JUndefined\<rparr>"

definition no_keys :: ApiKeys where
  "no_keys = \<lparr>openai = JUndefined, anthropic = JUndefined, gemini = JUndefined,
              grok = JUndefined\<rparr>"

definition custom_schema_payload :: jsval where
  "custom_schema_payload =
     JObject [(js ''query'', JString (js ''What is 2+2?'')),
              (js ''schema'', JObject [(js ''type'', JString (js ''string''))]),
              (js ''apiKeys'', JObject [(js ''grok'', JString (js ''k4''))])]"

definition ok_outcome :: LLMResponse where
  "ok_outcome = \<lparr>provider = js ''OpenAI GPT-4'', success = True,
                  data = Some (JArray [JNumber (Num 4)]), error = None, latency = 250\<rparr>"

definition failed_outcome :: LLMResponse where
  "failed_outcome = \<lparr>provider = js ''Anthropic Claude'', success = False, data = None,
                      error = Some (js ''Anthropic Claude API error: 429 Too Many Requests''),
                      latency = 250\<rparr>"

section \<open>Basic facts\<close>

lemma of_char_word16_eq_iff: "((of_char c :: 16 word) = of_char d) = (c = d)"
proof -
  have lt: "(of_char x :: nat) < 2 ^ 16" for x :: char
    by (rule less_trans [OF nat_of_char_less_256]) simp
  have "((of_nat (of_char c) :: 16 word) = of_nat (of_char d)) = ((of_char c :: nat) = of_char d)"
    using lt [of c] lt [of d] by (simp add: word_of_nat_eq_iff take_bit_nat_eq_self)
  then show ?thesis by (simp add: of_nat_of_char)
qed

lemma js_eq_iff: "(js a = js b) = (a = b)"
  unfolding js_def
  by (induction a arbitrary: b) (auto simp: of_char_word16_eq_iff Cons_eq_map_conv map_eq_Cons_conv)

lemma js_Nil_iff: "(js a = []) = (a = [])" "([] = js a) = (a = [])"
  by (auto simp: js_def)

lemma js_append: "js a @ js b = js (a @ b)"
  by (simp add: js_def)

lemma trim_Nil: "trim [] = []"
  by (simp add: trim_def)

section \<open>Request validation: results\<close>

lemma validateRequest_cases:
  "validateRequest h rd =
     (if \<not> truthy rd \<or> typeof rd \<noteq> TObject then Inr (Err (js ''Invalid request body''))
      else case own_property rd (js ''query'') of
             JString s \<Rightarrow>
               if s = [] then Inr (Err (js ''Missing required field: query''))
               else if trim s = [] then Inr (Err (js ''Query cannot be empty''))
               else Inr (Ok rd)
           | _ \<Rightarrow> Inr (Err (js ''Missing required field: query'')))"
  by (cases rd; cases "own_property rd (js ''query'')")
     (simp_all add: validateRequest_def member_def)

lemma validateRequest_Ok_D:
  assumes "validateRequest h rd = Inr (Ok v)"
  shows "v = rd" and "\<not> nullish rd"
    and "\<exists>s. own_property rd (js ''query'') = JString s \<and> s \<noteq> [] \<and> trim s \<noteq> []"
  using assms
  by (cases rd; cases "own_property rd (js ''query'')";
      simp add: validateRequest_cases trim_Nil split: if_splits)+

text \<open>
  Claim C4. For every payload, validation succeeds if and only if the payload is a non-null
  object whose \<open>query\<close> is a string of trimmed length greater than zero, and the value it
  returns on success is the payload itself, unchanged. Validation never raises: it always
  returns a tagged result.
\<close>

theorem validateRequest_succeeds_iff:
  "(validateRequest h rd = Inr (Ok v)) =
     (v = rd \<and> typeof rd = TObject \<and> rd \<noteq> JNull \<and>
      (\<exists>s. own_property rd (js ''query'') = JString s \<and> 0 < length (trim s)))
   \<and> (\<exists>r. validateRequest h rd = Inr r)"
  by (cases rd; cases "own_property rd (js ''query'')";
      auto simp: validateRequest_cases trim_Nil)

theorem validateRequest_succeeds_iff_witness:
  "validateRequest sample_host two_keys_payload = Inr (Ok two_keys_payload)
   \<and> validateRequest sample_host (JObject [(js ''query'', JString (js '' ''))])
       \<noteq> Inr (Ok (JObject [(js ''query'', JString (js '' ''))]))"
  using validateRequest_succeeds_iff [of sample_host two_keys_payload two_keys_payload]
        validateRequest_succeeds_iff [of sample_host "JObject [(js ''query'', JString (js '' ''))]"
          "JObject [(js ''query'', JString (js '' ''))]"]
  by (simp add: two_keys_payload_def js_eq_iff trim_def js_def is_ws_def)

text \<open>
  Claim C7, as stated, fails on the empty string: the payload \<open>{query: ""}\<close> is rejected with
  the missing-field message, not with the empty-query message, because line 418 tests
  \<open>!requestData.query\<close> first and the empty string is falsy.
\<close>

theorem validateRequest_empty_string_counterexample:
  "validateRequest sample_host (JObject [(js ''query'', JString [])])
     = Inr (Err (js ''Missing required field: query''))
   \<and> validateRequest sample_host (JObject [(js ''query'', JString [])])
     \<noteq> Inr (Err (js ''Query cannot be empty''))"
  by (simp add: validateRequest_cases js_eq_iff trim_Nil)

text \<open>
  Claim C7, amended. For every payload that is a non-null object, validation fails with the
  missing-field message exactly when \<open>query\<close> is falsy (absent, null, the empty string, ...)
  or not a string, and with the empty-query message exactly when \<open>query\<close> is a non-empty
  string whose trimmed length is zero.
\<close>

theorem validateRequest_failure_kinds:
  assumes "typeof rd = TObject" and "rd \<noteq> JNull"
  shows "(validateRequest h rd = Inr (Err (js ''Missing required field: query''))) =
           (\<not> truthy (own_property rd (js ''query''))
            \<or> typeof (own_property rd (js ''query'')) \<noteq> TString)
         \<and> (validateRequest h rd = Inr (Err (js ''Query cannot be empty''))) =
           (\<exists>s. own_property rd (js ''query'') = JString s \<and> s \<noteq> [] \<and> length (trim s) = 0)"
  using assms
  by (cases rd; cases "own_property rd (js ''query'')";
      simp add: validateRequest_cases js_eq_iff trim_Nil)

theorem validateRequest_failure_kinds_witness:
  "typeof (JObject [(js ''query'', JString (js ''  ''))]) = TObject
   \<and> JObject [(js ''query'', JString (js ''  ''))] \<noteq> JNull
   \<and> validateRequest sample_host (JObject [(js ''query'', JString (js ''  ''))])
       = Inr (Err (js ''Query cannot be empty''))
   \<and> validateRequest sample_host (JObject [(js ''query'', JNumber (Num 123))])
       = Inr (Err (js ''Missing required field: query''))"
  using validateRequest_failure_kinds [of "JObject [(js ''query'', JString (js ''  ''))]" sample_host]
        validateRequest_failure_kinds [of "JObject [(js ''query'', JNumber (Num 123))]" sample_host]
  by (simp add: js_eq_iff trim_def js_def is_ws_def)

section \<open>Evaluation on the sample host\<close>

lemma decimal_429: "decimal 429 = js ''429''"
  by (simp add: decimal.simps digit_def js_def)

lemmas sample_defs =
  sample_host_def sample_clock_def steady_clock_def skewed_clock_def no_env_def
  two_keys_payload_def no_keys_payload_def post_def answer_text_def envelope_text_def

lemmas config_defs =
  LLM_CONFIGS_openai_def LLM_CONFIGS_anthropic_def LLM_CONFIGS_gemini_def LLM_CONFIGS_grok_def

lemmas run_defs =
  createLLMQueryFunction_def queryOpenAI_def queryClaude_def queryGemini_def queryGrok_def
  settle_def and_then_def try_catch_def safeJsonParse_def
  parseOpenAIResponse_def parseClaudeResponse_def parseGeminiResponse_def parseGrokResponse_def
  buildOpenAIRequestBody_def buildClaudeRequestBody_def buildGeminiRequestBody_def
  buildGrokRequestBody_def opt_member_def to_string_def

lemma sample_payload_valid:
  "validateRequest sample_host two_keys_payload = Inr (Ok two_keys_payload)"
  "validateRequest sample_host no_keys_payload = Inr (Ok no_keys_payload)"
  "validateRequest sample_host custom_schema_payload = Inr (Ok custom_schema_payload)"
  by (simp_all add: validateRequest_cases two_keys_payload_def no_keys_payload_def
        custom_schema_payload_def js_eq_iff js_Nil_iff trim_def js_def is_ws_def)

lemma sample_resolve:
  "resolveApiKeys sample_host two_keys_payload no_env = Inr two_keys"
  "resolveApiKeys sample_host no_keys_payload no_env = Inr no_keys"
  by (simp_all add: resolveApiKeys_def and_then_def member_def opt_member_def js_or_def
        env_value_def two_keys_payload_def no_keys_payload_def no_env_def two_keys_def no_keys_def
        js_eq_iff js_Nil_iff)

lemma sample_available:
  "available two_keys = [QueryOpenAI, QueryClaude]" "available no_keys = []"
  by (simp_all add: available_def registration_order_def two_keys_def no_keys_def js_Nil_iff)

lemma custom_schema_resolve:
  "resolveApiKeys sample_host custom_schema_payload no_env =
     Inr \<lparr>openai = JUndefined, anthropic = JUndefined, gemini = JUndefined,
          grok = JString (js ''k4'')\<rparr>"
  by (simp add: resolveApiKeys_def and_then_def member_def opt_member_def js_or_def
        env_value_def custom_schema_payload_def no_env_def js_eq_iff js_Nil_iff)

lemma openai_ok:
  "queryOpenAI sample_host steady_clock (JString (js ''What is 2+2?'')) DEFAULT_SCHEMA
       (JString (js ''k1''))
     = Inr \<lparr>provider = js ''OpenAI GPT-4'', success = True, data = Some (JArray [JNumber (Num 4)]),
            error = None, latency = 250\<rparr>"
  by (simp add: run_defs sample_defs config_defs js_eq_iff js_append js_Nil_iff Let_def)

lemma gemini_down:
  "queryGemini sample_host steady_clock (JString (js ''What is 2+2?'')) DEFAULT_SCHEMA
       (JString (js ''k3''))
     = Inr \<lparr>provider = js ''Google Gemini'', success = False, data = None,
            error = Some (js ''fetch failed''), latency = 250\<rparr>"
  by (simp add: run_defs sample_defs config_defs js_eq_iff js_append js_Nil_iff Let_def)

section \<open>Generic safe-parse: results\<close>

lemma safeJsonParse_eq:
  "safeJsonParse h t =
     Inr (case JSON_parse h t of
            Inr v \<Rightarrow> Ok v
          | Inl err \<Rightarrow> Err (js ''JSON parse error: '' @ message_or_unknown err))"
  by (simp add: safeJsonParse_def try_catch_def and_then_def split: sum.splits)

text \<open>
  Claim C5. For every input text (the empty string, white space, text that is not JSON and
  text of any length alike) and whatever the parser of the host does with it, the safe
  parse never raises and returns a tagged value: success with the parsed value, or failure
  with a description. When the parser raises an \<open>Error\<close>, as \<open>JSON.parse\<close> does with its
  \<open>SyntaxError\<close>, the description is "JSON parse error: " followed by the parser's message.
\<close>

theorem safeJsonParse_never_raises:
  "(\<exists>r. safeJsonParse h t = Inr r)
   \<and> (\<forall>v. JSON_parse h t = Inr v \<longrightarrow> safeJsonParse h t = Inr (Ok v))
   \<and> (\<forall>n m. JSON_parse h t = Inl (JsError n m) \<longrightarrow>
         safeJsonParse h t = Inr (Err (js ''JSON parse error: '' @ m)))
   \<and> (\<forall>x. JSON_parse h t = Inl (NonError x) \<longrightarrow>
         safeJsonParse h t = Inr (Err (js ''JSON parse error: Unknown error'')))"
  by (simp add: safeJsonParse_eq js_append)

theorem safeJsonParse_never_raises_witness:
  "JSON_parse sample_host [] = Inl (JsError (js ''SyntaxError'') (js ''Unexpected end of JSON input''))
   \<and> safeJsonParse sample_host [] = Inr (Err (js ''JSON parse error: Unexpected end of JSON input''))
   \<and> JSON_parse sample_host answer_text = Inr (JArray [JNumber (Num 4)])
   \<and> safeJsonParse sample_host answer_text = Inr (Ok (JArray [JNumber (Num 4)]))"
  using safeJsonParse_never_raises [of sample_host "[]"]
        safeJsonParse_never_raises [of sample_host answer_text]
  by (simp add: sample_host_def answer_text_def envelope_text_def js_eq_iff js_Nil_iff js_append)

section \<open>The provider invoker: results\<close>

lemma createLLMQueryFunction_settles:
  "\<exists>r. createLLMQueryFunction h clk prov u bh bb pr um (JString s) schema apiKey = Inr r \<and>
       provider r = prov \<and>
       (latency r = clk 1 - clk 0 \<or> latency r = clk 2 - clk 0) \<and>
       (data r \<noteq> None) = success r \<and> (error r \<noteq> None) = (\<not> success r)"
  by (auto simp: createLLMQueryFunction_def Let_def and_then_def try_catch_def safeJsonParse_eq
           split: sum.splits option.splits Result.splits prod.splits)

text \<open>
  Claim C2. For every adapter (its functions may raise), query text, schema, credential,
  and every result of the transport (a raised error, any status, any body text, a body
  that cannot be read), the invoker does not raise: its promise is fulfilled with an
  outcome that carries the provider identity and a latency, the difference of two clock
  readings. The key \<open>data\<close> is present exactly on success and the key \<open>error\<close> exactly on
  failure.
\<close>

theorem createLLMQueryFunction_always_outcome:
  "\<exists>r. createLLMQueryFunction h clk prov u buildHeaders buildBody parseResponse urlModifier
          (JString s) schema apiKey = Inr r \<and>
       provider r = prov \<and>
       (latency r = clk 1 - clk 0 \<or> latency r = clk 2 - clk 0) \<and>
       (data r \<noteq> None) = success r \<and> (error r \<noteq> None) = (\<not> success r)"
  by (rule createLLMQueryFunction_settles)

theorem createLLMQueryFunction_always_outcome_witness:
  "\<exists>r. createLLMQueryFunction sample_host steady_clock (name LLM_CONFIGS_anthropic)
          (url LLM_CONFIGS_anthropic) (\<lambda>apiKey. Inr []) buildClaudeRequestBody
          (parseClaudeResponse sample_host) None
          (JString (js ''What is 2+2?'')) DEFAULT_SCHEMA (JString (js ''k2'')) = Inr r
       \<and> provider r = js ''Anthropic Claude'' \<and> \<not> success r \<and> data r = None
       \<and> error r = Some (js ''Anthropic Claude API error: 429 Too Many Requests'')
       \<and> latency r = 250"
proof -
  from createLLMQueryFunction_always_outcome
         [of sample_host steady_clock "name LLM_CONFIGS_anthropic" "url LLM_CONFIGS_anthropic"
             "\<lambda>apiKey. Inr []" buildClaudeRequestBody "parseClaudeResponse sample_host" None
             "js ''What is 2+2?''" DEFAULT_SCHEMA "JString (js ''k2'')"]
  obtain r where r:
    "createLLMQueryFunction sample_host steady_clock (name LLM_CONFIGS_anthropic)
          (url LLM_CONFIGS_anthropic) (\<lambda>apiKey. Inr []) buildClaudeRequestBody
          (parseClaudeResponse sample_host) None
          (JString (js ''What is 2+2?'')) DEFAULT_SCHEMA (JString (js ''k2'')) = Inr r"
    "provider r = name LLM_CONFIGS_anthropic"
    "(data r \<noteq> None) = success r" "(error r \<noteq> None) = (\<not> success r)"
    by blast
  from r(1) have "r = \<lparr>provider = js ''Anthropic Claude'', success = False, data = None,
            error = Some (js ''Anthropic Claude API error: 429 Too Many Requests''),
            latency = 250\<rparr>"
    by (simp add: run_defs sample_defs config_defs js_eq_iff js_append decimal_429 Let_def)
  with r(1) show ?thesis by simp
qed

text \<open>
  Claim C8 says that the recorded latency is non-negative on every branch. The latency is
  the plain difference of two readings of \<open>Date.now()\<close>, with no clamping: when the wall
  clock is set back by one millisecond during the call, the outcome of the HTTP 429 branch
  records a latency of -1.
\<close>

theorem latency_negative_when_clock_set_back:
  "queryClaude sample_host skewed_clock (JString (js ''What is 2+2?'')) DEFAULT_SCHEMA
       (JString (js ''k2''))
     = Inr \<lparr>provider = js ''Anthropic Claude'', success = False, data = None,
            error = Some (js ''Anthropic Claude API error: 429 Too Many Requests''),
            latency = - 1\<rparr>"
  by (simp add: run_defs sample_defs config_defs js_eq_iff js_append decimal_429 Let_def)

text \<open>When no later reading is below the first one, the latency is non-negative.\<close>

lemma latency_nonneg_if_clock_not_set_back:
  assumes "clk 0 \<le> clk 1" and "clk 0 \<le> clk 2"
    and "createLLMQueryFunction h clk prov u bh bb pr um (JString s) schema apiKey = Inr r"
  shows "0 \<le> latency r"
  using createLLMQueryFunction_settles [of h clk prov u bh bb pr um s schema apiKey] assms
  by auto

section \<open>Key resolution: results\<close>

text \<open>
  Claim C3. For every request object, every caller-supplied credential map in it and every
  set of defaults, resolution succeeds and the credential of each provider is given by the
  rule \<open>resolved\<close> applied to the caller's entry and the default of that provider alone: the
  caller's value when truthy, the default otherwise (so the empty string and null fall
  through). No entry of another provider occurs in it.
\<close>

theorem resolveApiKeys_per_provider:
  assumes "\<not> nullish rd"
  shows "resolveApiKeys h rd env =
           Inr \<lparr>openai = resolved (caller_credential rd (js ''openai'')) (OPENAI_API_KEY env),
                anthropic = resolved (caller_credential rd (js ''anthropic'')) (ANTHROPIC_API_KEY env),
                gemini = resolved (caller_credential rd (js ''gemini'')) (GEMINI_API_KEY env),
                grok = resolved (caller_credential rd (js ''grok'')) (GROK_API_KEY env)\<rparr>"
  using assms
  by (simp add: resolveApiKeys_def and_then_def member_def resolved_def caller_credential_def js_or_def)

theorem resolveApiKeys_per_provider_witness:
  "\<not> nullish two_keys_payload
   \<and> resolveApiKeys sample_host two_keys_payload sample_env =
       Inr \<lparr>openai = JString (js ''k1''), anthropic = JString (js ''k2''),
            gemini = JString (js ''env-gemini''), grok = JUndefined\<rparr>"
proof -
  have nn: "\<not> nullish two_keys_payload"
    by (simp add: two_keys_payload_def)
  from resolveApiKeys_per_provider [OF nn, of sample_host sample_env] nn
  show ?thesis
    by (simp add: resolved_def caller_credential_def opt_member_def env_value_def
          two_keys_payload_def sample_env_def js_eq_iff js_Nil_iff)
qed

section \<open>Aggregation: results\<close>

text \<open>
  Claim C6. For every query, outcome list and total latency, the aggregated result counts
  as many providers as the list has outcomes, whatever their success flags, and holds the
  list itself: every outcome with its own flag. The aggregation is a total function of its
  arguments and has no failing branch.
\<close>

theorem createCombinedResponse_counts_all:
  "providersQueried (createCombinedResponse now q rs t) = length rs
   \<and> responses (createCombinedResponse now q rs t) = rs
   \<and> map success (responses (createCombinedResponse now q rs t)) = map success rs
   \<and> query (createCombinedResponse now q rs t) = q
   \<and> totalLatency (createCombinedResponse now q rs t) = t"
  by (simp add: createCombinedResponse_def)

theorem createCombinedResponse_counts_all_witness:
  "providersQueried (createCombinedResponse (js ''2025-10-20T00:00:01.600Z'')
      (JString (js ''What is 2+2?'')) [ok_outcome, failed_outcome] 610) = 2
   \<and> map success (responses (createCombinedResponse (js ''2025-10-20T00:00:01.600Z'')
      (JString (js ''What is 2+2?'')) [ok_outcome, failed_outcome] 610)) = [True, False]"
  using createCombinedResponse_counts_all [of "js ''2025-10-20T00:00:01.600Z''"
          "JString (js ''What is 2+2?'')" "[ok_outcome, failed_outcome]" 610]
  by (simp add: ok_outcome_def failed_outcome_def)

section \<open>Dispatch and the request handler: results\<close>

lemma settle_fulfils:
  assumes "arg_query p = JString s"
  shows "\<exists>r. settle h clk p = Inr r \<and> provider r = provider_name (callee p)"
proof (cases "callee p")
  case QueryOpenAI
  then show ?thesis
    using createLLMQueryFunction_settles [of h "query_clock clk QueryOpenAI" "name LLM_CONFIGS_openai"]
    by (simp add: settle_def queryOpenAI_def assms) blast
next
  case QueryClaude
  then show ?thesis
    using createLLMQueryFunction_settles [of h "query_clock clk QueryClaude" "name LLM_CONFIGS_anthropic"]
    by (simp add: settle_def queryClaude_def assms) blast
next
  case QueryGemini
  then show ?thesis
    using createLLMQueryFunction_settles [of h "query_clock clk QueryGemini" "name LLM_CONFIGS_gemini"]
    by (simp add: settle_def queryGemini_def assms) blast
next
  case QueryGrok
  then show ?thesis
    using createLLMQueryFunction_settles [of h "query_clock clk QueryGrok" "name LLM_CONFIGS_grok"]
    by (simp add: settle_def queryGrok_def assms) blast
qed

lemma Promise_all_fulfils:
  assumes "\<And>p. p \<in> set ps \<Longrightarrow> \<exists>r. f p = Inr r \<and> g r = k p"
  shows "\<exists>rs. Promise_all (map f ps) = Inr rs \<and> map g rs = map k ps"
  using assms
proof (induction ps)
  case Nil
  then show ?case by simp
next
  case (Cons p ps)
  from Cons.prems [of p] obtain r where r: "f p = Inr r" "g r = k p" by auto
  from Cons.IH Cons.prems obtain rs where rs: "Promise_all (map f ps) = Inr rs" "map g rs = map k ps"
    by auto
  show ?case using r rs by simp
qed

lemma buildLLMPromises_callees:
  "map callee (buildLLMPromises q schema keys) = available keys"
  by (simp add: buildLLMPromises_def available_def registration_order_def)

lemma buildLLMPromises_args:
  assumes "p \<in> set (buildLLMPromises q schema keys)"
  shows "arg_query p = q" and "arg_schema p = schema" and "arg_apiKey p = credential_of keys (callee p)"
  using assms by (auto simp: buildLLMPromises_def split: if_splits)

lemma dispatch_fulfils:
  "\<exists>rs. Promise_all (map (settle h clk) (buildLLMPromises (JString s) schema keys)) = Inr rs
        \<and> map provider rs = map provider_name (available keys)"
proof -
  have "\<exists>rs. Promise_all (map (settle h clk) (buildLLMPromises (JString s) schema keys)) = Inr rs
        \<and> map provider rs = map (\<lambda>p. provider_name (callee p)) (buildLLMPromises (JString s) schema keys)"
    by (rule Promise_all_fulfils) (simp add: settle_fulfils buildLLMPromises_args)
  moreover have "map (\<lambda>p. provider_name (callee p)) (buildLLMPromises (JString s) schema keys)
      = map provider_name (available keys)"
    by (simp flip: buildLLMPromises_callees [of "JString s" schema keys])
  ultimately show ?thesis by simp
qed

lemma handleRequest_valid:
  assumes "req_method req = js ''POST''" and "req_json req = Inr rd"
    and "validateRequest h rd = Inr (Ok rd)"
  shows "\<exists>s keys. own_property rd (js ''query'') = JString s \<and> resolveApiKeys h rd env = Inr keys \<and>
         handleRequest h clk req env =
           (let promises = buildLLMPromises (JString s) (js_or (own_property rd (js ''schema'')) DEFAULT_SCHEMA) keys
            in (promises,
                if length promises = 0
                then Inr (createErrorResponse (iso_now clk) 400
                       (js ''No API keys provided. Include apiKeys in request body or configure environment variables.'')
                       JUndefined)
                else case Promise_all (map (settle h clk) promises) of
                       Inl err \<Rightarrow>
                         Inr (createErrorResponse (iso_now clk) 500 (js ''Failed to query LLMs'')
                                (JObject [(js ''error'', JString (message_or_unknown err))]))
                     | Inr rs \<Rightarrow>
                         createSuccessResponse h
                           (createCombinedResponse (iso_now clk) (JString s) rs
                              (request_end clk - request_start clk))))"
proof -
  from validateRequest_Ok_D [OF assms(3)]
  obtain s where nn: "\<not> nullish rd" and s: "own_property rd (js ''query'') = JString s" by blast
  from nn obtain keys where keys: "resolveApiKeys h rd env = Inr keys"
    by (simp add: resolveApiKeys_def and_then_def member_def)
  show ?thesis
    using assms nn s keys
    by (simp add: handleRequest_def member_def Let_def split: sum.splits)
qed

lemma handleRequest_callees:
  assumes "req_method req = js ''POST''" and "req_json req = Inr rd"
    and "validateRequest h rd = Inr (Ok rd)" and "resolveApiKeys h rd env = Inr keys"
  shows "map callee (fst (handleRequest h clk req env)) = available keys"
  using handleRequest_valid [OF assms(1-3), of env clk] assms(4)
  by (auto simp: Let_def buildLLMPromises_callees)

text \<open>
  Claim C1. For every resolved credential set, \<^verbatim>\<open>buildLLMPromises\<close> makes one call per provider
  whose credential is truthy, each with its own credential, in the order openai, anthropic,
  gemini, grok; all the promises are fulfilled, and \<open>Promise.all\<close> gives one outcome per call
  in that same order, whatever the clocks and the transport do. In the handler, on a
  validated POST request, the calls made are those; when no credential is truthy no call
  is made and the response is the 400 "No API keys provided" error, otherwise the response
  is 200 with the outcomes of the available providers in registration order.
\<close>

theorem dispatcher_outcomes_in_registration_order:
  assumes "req_method req = js ''POST''" and "req_json req = Inr rd"
    and "validateRequest h rd = Inr (Ok rd)" and "resolveApiKeys h rd env = Inr keys"
  shows "map callee (buildLLMPromises q schema ks) = available ks
     \<and> (\<forall>p \<in> set (buildLLMPromises q schema ks). arg_apiKey p = credential_of ks (callee p))
     \<and> (\<exists>rs. Promise_all (map (settle h clk) (buildLLMPromises (JString s) schema ks)) = Inr rs
              \<and> map provider rs = map provider_name (available ks))
     \<and> map callee (fst (handleRequest h clk req env)) = available keys
     \<and> (if available keys = []
         then handleRequest h clk req env =
                ([], Inr (createErrorResponse (iso_now clk) 400
                  (js ''No API keys provided. Include apiKeys in request body or configure environment variables.'')
                  JUndefined))
         else \<exists>r. snd (handleRequest h clk req env) =
                     Inr \<lparr>status = 200,
                          headers = [(js ''Content-Type'', js ''application/json''),
                                     (js ''Access-Control-Allow-Origin'', js ''*'')],
                          body = CombinedBody r\<rparr>
                   \<and> map provider (responses r) = map provider_name (available keys)
                   \<and> providersQueried r = length (available keys))"
proof -
  from handleRequest_valid [OF assms(1-3), of env clk] assms(4)
  obtain t where hr: "handleRequest h clk req env =
           (let promises = buildLLMPromises (JString t) (js_or (own_property rd (js ''schema'')) DEFAULT_SCHEMA) keys
            in (promises,
                if length promises = 0
                then Inr (createErrorResponse (iso_now clk) 400
                       (js ''No API keys provided. Include apiKeys in request body or configure environment variables.'')
                       JUndefined)
                else case Promise_all (map (settle h clk) promises) of
                       Inl err \<Rightarrow>
                         Inr (createErrorResponse (iso_now clk) 500 (js ''Failed to query LLMs'')
                                (JObject [(js ''error'', JString (message_or_unknown err))]))
                     | Inr rs \<Rightarrow>
                         createSuccessResponse h
                           (createCombinedResponse (iso_now clk) (JString t) rs
                              (request_end clk - request_start clk))))"
    by auto
  define sch where "sch = js_or (own_property rd (js ''schema'')) DEFAULT_SCHEMA"
  obtain rs where rs: "Promise_all (map (settle h clk) (buildLLMPromises (JString t) sch keys)) = Inr rs"
      "map provider rs = map provider_name (available keys)"
    using dispatch_fulfils [of h clk t sch keys] by blast
  have len: "length rs = length (available keys)"
    using rs(2) by (metis length_map)
  have empty_iff: "(buildLLMPromises (JString t) sch keys = []) = (available keys = [])"
    using buildLLMPromises_callees [of "JString t" sch keys] by (metis map_is_Nil_conv)
  have 1: "map callee (buildLLMPromises q schema ks) = available ks"
    by (rule buildLLMPromises_callees)
  have 2: "\<forall>p \<in> set (buildLLMPromises q schema ks). arg_apiKey p = credential_of ks (callee p)"
    by (simp add: buildLLMPromises_args)
  have 3: "\<exists>rs. Promise_all (map (settle h clk) (buildLLMPromises (JString s) schema ks)) = Inr rs
              \<and> map provider rs = map provider_name (available ks)"
    by (rule dispatch_fulfils)
  have 4: "map callee (fst (handleRequest h clk req env)) = available keys"
    by (simp add: hr Let_def sch_def [symmetric] buildLLMPromises_callees)
  have 5: "if available keys = []
         then handleRequest h clk req env =
                ([], Inr (createErrorResponse (iso_now clk) 400
                  (js ''No API keys provided. Include apiKeys in request body or configure environment variables.'')
                  JUndefined))
         else \<exists>r. snd (handleRequest h clk req env) =
                     Inr \<lparr>status = 200,
                          headers = [(js ''Content-Type'', js ''application/json''),
                                     (js ''Access-Control-Allow-Origin'', js ''*'')],
                          body = CombinedBody r\<rparr>
                   \<and> map provider (responses r) = map provider_name (available keys)
                   \<and> providersQueried r = length (available keys)"
  proof (cases "available keys = []")
    case True
    then show ?thesis
      using empty_iff by (simp add: hr Let_def sch_def [symmetric])
  next
    case False
    then show ?thesis
      using empty_iff rs len
      by (simp add: hr Let_def sch_def [symmetric] createSuccessResponse_def createCombinedResponse_def)
  qed
  from 1 2 3 4 5 show ?thesis by blast
qed

theorem dispatcher_outcomes_in_registration_order_witness:
  "req_method (post two_keys_payload) = js ''POST''
   \<and> req_json (post two_keys_payload) = Inr two_keys_payload
   \<and> validateRequest sample_host two_keys_payload = Inr (Ok two_keys_payload)
   \<and> resolveApiKeys sample_host two_keys_payload no_env = Inr two_keys
   \<and> map callee (fst (handleRequest sample_host sample_clock (post two_keys_payload) no_env))
       = [QueryOpenAI, QueryClaude]
   \<and> (\<exists>r. snd (handleRequest sample_host sample_clock (post two_keys_payload) no_env) =
              Inr \<lparr>status = 200,
                   headers = [(js ''Content-Type'', js ''application/json''),
                              (js ''Access-Control-Allow-Origin'', js ''*'')],
                   body = CombinedBody r\<rparr>
            \<and> map provider (responses r) = [js ''OpenAI GPT-4'', js ''Anthropic Claude'']
            \<and> providersQueried r = 2)
   \<and> handleRequest sample_host sample_clock (post no_keys_payload) no_env =
       ([], Inr (createErrorResponse (iso_now sample_clock) 400
          (js ''No API keys provided. Include apiKeys in request body or configure environment variables.'')
          JUndefined))"
proof -
  have m: "req_method (post p) = js ''POST''" and j: "req_json (post p) = Inr p" for p
    by (simp_all add: post_def)
  from dispatcher_outcomes_in_registration_order
         [OF m j sample_payload_valid(1) sample_resolve(1), where clk = sample_clock]
       dispatcher_outcomes_in_registration_order
         [OF m j sample_payload_valid(2) sample_resolve(2), where clk = sample_clock]
  show ?thesis
    by (simp add: m j sample_payload_valid sample_resolve sample_available config_defs numeral_2_eq_2)
qed

text \<open>
  Claim C10. On a validated POST request every call of a query function receives the
  request's \<open>schema\<close> when that value is truthy and \<^verbatim>\<open>DEFAULT_SCHEMA\<close> when it is absent or
  falsy; the default is an object schema that requires \<open>answer\<close> and \<open>confidence\<close>.
\<close>

theorem handleRequest_default_schema:
  assumes "req_method req = js ''POST''" and "req_json req = Inr rd"
    and "validateRequest h rd = Inr (Ok rd)"
  shows "(\<forall>p \<in> set (fst (handleRequest h clk req env)).
            arg_schema p = (if truthy (own_property rd (js ''schema''))
                            then own_property rd (js ''schema'') else DEFAULT_SCHEMA))
     \<and> own_property DEFAULT_SCHEMA (js ''type'') = JString (js ''object'')
     \<and> own_property DEFAULT_SCHEMA (js ''required'')
         = JArray [JString (js ''answer''), JString (js ''confidence'')]"
proof -
  from handleRequest_valid [OF assms, of env clk]
  obtain t keys where "fst (handleRequest h clk req env) =
      buildLLMPromises (JString t) (js_or (own_property rd (js ''schema'')) DEFAULT_SCHEMA) keys"
    by (auto simp: Let_def)
  then have "\<forall>p \<in> set (fst (handleRequest h clk req env)).
            arg_schema p = (if truthy (own_property rd (js ''schema''))
                            then own_property rd (js ''schema'') else DEFAULT_SCHEMA)"
    by (simp add: buildLLMPromises_args js_or_def)
  moreover have "own_property DEFAULT_SCHEMA (js ''type'') = JString (js ''object'')"
    by (simp add: DEFAULT_SCHEMA_def js_eq_iff)
  moreover have "own_property DEFAULT_SCHEMA (js ''required'')
         = JArray [JString (js ''answer''), JString (js ''confidence'')]"
    by (simp add: DEFAULT_SCHEMA_def js_eq_iff)
  ultimately show ?thesis by blast
qed

theorem handleRequest_default_schema_witness:
  "req_method (post two_keys_payload) = js ''POST''
   \<and> req_json (post two_keys_payload) = Inr two_keys_payload
   \<and> validateRequest sample_host two_keys_payload = Inr (Ok two_keys_payload)
   \<and> map callee (fst (handleRequest sample_host sample_clock (post two_keys_payload) no_env))
       = [QueryOpenAI, QueryClaude]
   \<and> list_all (\<lambda>p. arg_schema p = DEFAULT_SCHEMA)
        (fst (handleRequest sample_host sample_clock (post two_keys_payload) no_env))
   \<and> map callee (fst (handleRequest sample_host sample_clock (post custom_schema_payload) no_env))
       = [QueryGrok]
   \<and> list_all (\<lambda>p. arg_schema p = JObject [(js ''type'', JString (js ''string''))])
        (fst (handleRequest sample_host sample_clock (post custom_schema_payload) no_env))"
proof -
  have m: "req_method (post p) = js ''POST''" and j: "req_json (post p) = Inr p" for p
    by (simp_all add: post_def)
  have s1: "own_property two_keys_payload (js ''schema'') = JNull"
    by (simp add: two_keys_payload_def js_eq_iff)
  have s2: "own_property custom_schema_payload (js ''schema'')
              = JObject [(js ''type'', JString (js ''string''))]"
    by (simp add: custom_schema_payload_def js_eq_iff)
  have c1: "map callee (fst (handleRequest sample_host sample_clock (post two_keys_payload) no_env))
       = [QueryOpenAI, QueryClaude]"
    using handleRequest_callees [OF m j sample_payload_valid(1) sample_resolve(1), of sample_clock]
    by (simp add: sample_available)
  have c2: "map callee (fst (handleRequest sample_host sample_clock (post custom_schema_payload) no_env))
       = [QueryGrok]"
    using handleRequest_callees [OF m j sample_payload_valid(3) custom_schema_resolve, of sample_clock]
    by (simp add: available_def registration_order_def js_Nil_iff)
  from handleRequest_default_schema [OF m j sample_payload_valid(1), of sample_clock no_env]
       handleRequest_default_schema [OF m j sample_payload_valid(3), of sample_clock no_env]
  show ?thesis
    by (simp add: m j sample_payload_valid s1 s2 c1 c2 list_all_iff)
qed

end
